theory Spec2Isabelle
  imports Main "HOL-Library.Sublist"
begin

section \<open>The values of the configuration file\<close>

text \<open>
  \<^verbatim>\<open>webpack.config.js\<close> exports one object literal. Its leaves are strings, a number,
  booleans, three regular-expression literals and two plugin instances. A path is a
  \<^typ>\<open>string\<close>; every character of the three patterns is ASCII, and a character outside
  ASCII never compares equal to one of them, with or without the \<^verbatim>\<open>i\<close> flag.
\<close>

subsection \<open>Regular-expression literals\<close>

text \<open>
  The constructs the three literals use: a pattern character, concatenation, the
  alternatives of a group, and the assertion \<^verbatim>\<open>$\<close>. \<open>Eps\<close> ends a run of characters.
\<close>

datatype regex =
    Chr char
  | Cat regex regex
  | Alt regex regex
  | EndAnchor
  | Eps

record js_regexp =
  pattern :: regex
  ignoreCase :: bool

text \<open>A run of pattern characters, such as \<^verbatim>\<open>node_modules\<close>.\<close>

fun chars :: "string \<Rightarrow> regex" where
  "chars [] = Eps"
| "chars (c # cs) = Cat (Chr c) (chars cs)"

text \<open>
  Canonicalize of the language standard, for a pattern without the \<^verbatim>\<open>u\<close> flag: the
  character is upper-cased, and a character outside ASCII is never mapped into ASCII.
  On the letters \<^verbatim>\<open>a\<close> to \<^verbatim>\<open>z\<close> (codes 97 to 122) that subtracts 32; every other
  ASCII character is kept, and so is a byte outside ASCII, which no pattern of this file
  can equal.
\<close>

definition canonicalize :: "char \<Rightarrow> char" where
  "canonicalize c =
     (let n = (of_char c :: nat) in if 97 \<le> n \<and> n \<le> 122 then char_of (n - 32) else c)"

definition char_matches :: "bool \<Rightarrow> char \<Rightarrow> char \<Rightarrow> bool" where
  "char_matches ic c x = (if ic then canonicalize c = canonicalize x else c = x)"

text \<open>
  The backtracking matcher: \<open>match_at ic r s\<close> lists, in the order the matcher tries
  them, the inputs left after \<open>r\<close> has matched at the start of \<open>s\<close>. Without the \<^verbatim>\<open>m\<close>
  flag \<^verbatim>\<open>$\<close> holds at the end of the input only.
\<close>

fun match_at :: "bool \<Rightarrow> regex \<Rightarrow> string \<Rightarrow> string list" where
  "match_at ic (Chr c) [] = []"
| "match_at ic (Chr c) (x # xs) = (if char_matches ic c x then [xs] else [])"
| "match_at ic (Cat r1 r2) s = concat (map (match_at ic r2) (match_at ic r1 s))"
| "match_at ic (Alt r1 r2) s = match_at ic r1 s @ match_at ic r2 s"
| "match_at ic EndAnchor s = (if s = [] then [s] else [])"
| "match_at ic Eps s = [s]"

text \<open>
  \<^verbatim>\<open>RegExp.prototype.test\<close> for a pattern without the \<^verbatim>\<open>g\<close> and \<^verbatim>\<open>y\<close> flags: the match
  is tried at index 0, then at each later index up to the end of the input.
\<close>

fun search :: "bool \<Rightarrow> regex \<Rightarrow> string \<Rightarrow> bool" where
  "search ic r [] = (match_at ic r [] \<noteq> [])"
| "search ic r (x # xs) = (if match_at ic r (x # xs) \<noteq> [] then True else search ic r xs)"

definition regexp_test :: "js_regexp \<Rightarrow> string \<Rightarrow> bool" where
  "regexp_test re s = search (ignoreCase re) (pattern re) s"

subsection \<open>Objects\<close>

text \<open>
  An object literal is the list of its properties in the order written; \<open>JNew\<close> is a
  \<^verbatim>\<open>new\<close> expression, the constructor's name with its arguments.
\<close>

datatype jsval =
    JStr string
  | JNum int
  | JBool bool
  | JRegExp js_regexp
  | JArr "jsval list"
  | JObj "(string \<times> jsval) list"
  | JNew string "jsval list"

text \<open>Property access; a key written twice in a literal keeps its last value.\<close>

fun field :: "string \<Rightarrow> jsval \<Rightarrow> jsval option" where
  "field k (JObj fs) = map_of (rev fs) k"
| "field k v = None"

fun at_path :: "string list \<Rightarrow> jsval \<Rightarrow> jsval option" where
  "at_path [] v = Some v"
| "at_path (k # ks) v = (case field k v of None \<Rightarrow> None | Some w \<Rightarrow> at_path ks w)"

fun keys :: "jsval option \<Rightarrow> string list" where
  "keys (Some (JObj fs)) = map fst fs"
| "keys v = []"

fun elems :: "jsval option \<Rightarrow> jsval list" where
  "elems (Some (JArr vs)) = vs"
| "elems v = []"

section \<open>The exported configuration\<close>

text \<open>The three entries of \<^verbatim>\<open>module.rules\<close>, in the order written.\<close>

definition style_rule :: jsval where
  "style_rule = JObj
     [(''test'', JRegExp \<lparr>pattern = Cat (chars ''.scss'') EndAnchor, ignoreCase = False\<rparr>),
      (''use'', JArr [JStr ''style-loader'', JStr ''css-loader'', JStr ''sass-loader''])]"

definition script_rule :: jsval where
  "script_rule = JObj
     [(''test'', JRegExp \<lparr>pattern = Cat (chars ''.js'') EndAnchor, ignoreCase = False\<rparr>),
      (''exclude'', JRegExp \<lparr>pattern = chars ''node_modules'', ignoreCase = False\<rparr>),
      (''use'', JObj
         [(''loader'', JStr ''babel-loader''),
          (''options'', JObj [(''presets'', JArr [JStr ''@babel/preset-env''])])])]"

definition asset_rule :: jsval where
  "asset_rule = JObj
     [(''test'', JRegExp
         \<lparr>pattern = Cat (Chr CHR ''.'')
            (Cat (Alt (chars ''png'') (Alt (chars ''svg'') (Alt (chars ''jpg'')
                    (Alt (chars ''jpeg'') (chars ''gif'')))))
               EndAnchor),
          ignoreCase = True\<rparr>),
      (''type'', JStr ''asset/resource'')]"

text \<open>
  \<^verbatim>\<open>path.resolve\<close> and \<^verbatim>\<open>__dirname\<close> come from the runtime; the configuration is the
  object literal for a given resolver and directory.
\<close>

definition config :: "(string \<Rightarrow> string \<Rightarrow> string) \<Rightarrow> string \<Rightarrow> jsval" where
  "config resolve dirname = JObj
     [(''mode'', JStr ''production''),
      (''entry'', JObj [(''bundle'', JStr (resolve dirname ''src/index.js''))]),
      (''output'', JObj
         [(''filename'', JStr ''[name][contenthash].js''),
          (''path'', JStr (resolve dirname ''dist'')),
          (''clean'', JBool True),
          (''assetModuleFilename'', JStr ''[name][ext]'')]),
      (''devServer'', JObj
         [(''static'', JObj [(''directory'', JStr (resolve dirname ''dist''))]),
          (''port'', JNum 3000),
          (''open'', JBool True),
          (''hot'', JBool True)]),
      (''module'', JObj [(''rules'', JArr [style_rule, script_rule, asset_rule])]),
      (''plugins'', JArr
         [JNew ''HtmlWebpackPlugin''
            [JObj [(''title'', JStr ''Webpack Overview''),
                   (''filename'', JStr ''index.html''),
                   (''template'', JStr ''src/template.html'')]],
          JNew ''BundleAnalyzerPlugin'' []])]"

section \<open>How the bundler reads a rule\<close>

text \<open>
  Modelled from the spec: the bundler's reading of a rule, which is not code of this
  repository (``script rule: matches a file suffix, excludes dependency directory'').
  A rule's \<^verbatim>\<open>test\<close> must match the resource path and its \<^verbatim>\<open>exclude\<close> must not; a
  condition that is absent constrains nothing. The conditions of this file are all
  regular expressions, which the bundler applies with \<^verbatim>\<open>RegExp.prototype.test\<close>; a
  condition of another kind is outside this model and yields \<open>None\<close>.
\<close>

definition condition :: "jsval option \<Rightarrow> string \<Rightarrow> bool option" where
  "condition c p =
     (case c of
        None \<Rightarrow> None
      | Some (JRegExp re) \<Rightarrow> Some (regexp_test re p)
      | Some _ \<Rightarrow> None)"

definition rule_applies :: "jsval \<Rightarrow> string \<Rightarrow> bool" where
  "rule_applies rule p =
     ((case field ''test'' rule of
         None \<Rightarrow> True
       | Some c \<Rightarrow> condition (Some c) p = Some True)
      \<and> (case field ''exclude'' rule of
         None \<Rightarrow> True
       | Some c \<Rightarrow> condition (Some c) p = Some False))"

section \<open>Case-insensitive comparison, in the spec's words\<close>

text \<open>
  The spec compares suffixes ``case-insensitively'': both sides are brought to lower
  case, the letters \<^verbatim>\<open>A\<close> to \<^verbatim>\<open>Z\<close> (codes 65 to 90) moving up by 32.
\<close>

definition lower_ascii :: "char \<Rightarrow> char" where
  "lower_ascii c =
     (let n = (of_char c :: nat) in if 65 \<le> n \<and> n \<le> 90 then char_of (n + 32) else c)"

section \<open>Filename templates\<close>

text \<open>
  Modelled from the spec: the bundler's substitution of the tokens of a filename
  template, which is not code of this repository. The spec speaks of a ``filename
  template (with substitutable tokens for target name and a content-derived hash)'',
  and the walkthrough of \<^verbatim>\<open>[name]\<close> as the key of the entry and of \<^verbatim>\<open>[contenthash]\<close> as a
  hash of the content. A token is an opening bracket, a nonempty run of letters, digits
  and underscores, and a closing bracket; anything else is text. A token with a length
  argument, which this file does not write, is not modelled and stays text.
\<close>

datatype segment = Text char | Token string

definition is_word_char :: "char \<Rightarrow> bool" where
  "is_word_char c =
     (let n = (of_char c :: nat)
      in (48 \<le> n \<and> n \<le> 57) \<or> (65 \<le> n \<and> n \<le> 90) \<or> n = 95 \<or> (97 \<le> n \<and> n \<le> 122))"

text \<open>
  One pass from left to right; the first argument is the token name read since the last
  opening bracket, if one is open.
\<close>

fun parse :: "string option \<Rightarrow> string \<Rightarrow> segment list" where
  "parse None [] = []"
| "parse None (c # cs) =
     (if c = CHR ''['' then parse (Some []) cs else Text c # parse None cs)"
| "parse (Some acc) [] = map Text (CHR ''['' # acc)"
| "parse (Some acc) (c # cs) =
     (if c = CHR '']'' \<and> acc \<noteq> [] then Token acc # parse None cs
      else if is_word_char c then parse (Some (acc @ [c])) cs
      else if c = CHR ''['' then map Text (CHR ''['' # acc) @ parse (Some []) cs
      else map Text (CHR ''['' # acc @ [c]) @ parse None cs)"

fun tokens :: "segment list \<Rightarrow> string list" where
  "tokens [] = []"
| "tokens (Text c # ss) = tokens ss"
| "tokens (Token t # ss) = t # tokens ss"

text \<open>A token the environment binds is replaced by its value; another token is kept.\<close>

fun render :: "(string \<Rightarrow> string option) \<Rightarrow> segment list \<Rightarrow> string" where
  "render env [] = []"
| "render env (Text c # ss) = c # render env ss"
| "render env (Token t # ss) =
     (case env t of Some v \<Rightarrow> v | None \<Rightarrow> ''['' @ t @ '']'') @ render env ss"

text \<open>
  The name of the script emitted for an entry: \<^verbatim>\<open>output.filename\<close> with \<^verbatim>\<open>[name]\<close> bound
  to the entry's key and \<^verbatim>\<open>[contenthash]\<close> to the hash of the emitted content.
\<close>

definition chunk_env :: "string \<Rightarrow> string \<Rightarrow> string \<Rightarrow> string option" where
  "chunk_env entry_name content_hash = [''name'' \<mapsto> entry_name, ''contenthash'' \<mapsto> content_hash]"

definition script_filename :: "jsval \<Rightarrow> string \<Rightarrow> string \<Rightarrow> string option" where
  "script_filename cfg entry_name content_hash =
     (case at_path [''output'', ''filename''] cfg of
        Some (JStr t) \<Rightarrow> Some (render (chunk_env entry_name content_hash) (parse None t))
      | _ \<Rightarrow> None)"

text \<open>
  A passthrough asset: the directory of its source file, its base name, its extension
  with the dot, and the hash of its content. Its output name is
  \<^verbatim>\<open>output.assetModuleFilename\<close> with each of the four bound to its token.
\<close>

record asset =
  file_path :: string
  file_name :: string
  file_ext :: string
  file_hash :: string

definition asset_env :: "asset \<Rightarrow> string \<Rightarrow> string option" where
  "asset_env a =
     [''path'' \<mapsto> file_path a, ''name'' \<mapsto> file_name a, ''ext'' \<mapsto> file_ext a,
      ''contenthash'' \<mapsto> file_hash a]"

definition asset_filename :: "jsval \<Rightarrow> asset \<Rightarrow> string option" where
  "asset_filename cfg a =
     (case at_path [''output'', ''assetModuleFilename''] cfg of
        Some (JStr t) \<Rightarrow> Some (render (asset_env a) (parse None t))
      | _ \<Rightarrow> None)"

section \<open>The walkthrough\<close>

text \<open>
  The prose that follows the configuration describes each loader of the style rule and
  says that the \<^verbatim>\<open>use\<close> array is ``applied right to left'': \<^verbatim>\<open>sass-loader\<close> converts SCSS
  into CSS, \<^verbatim>\<open>css-loader\<close> resolves \<^verbatim>\<open>@import\<close> and \<^verbatim>\<open>url()\<close>, \<^verbatim>\<open>style-loader\<close> injects the
  CSS into the page.
\<close>

datatype transform = Preprocess | Resolve | Inject

fun loader_role :: "jsval \<Rightarrow> transform option" where
  "loader_role (JStr l) =
     (if l = ''sass-loader'' then Some Preprocess
      else if l = ''css-loader'' then Some Resolve
      else if l = ''style-loader'' then Some Inject
      else None)"
| "loader_role v = None"

definition application_order :: "jsval list \<Rightarrow> jsval list" where
  "application_order use = rev use"

text \<open>
  The configuration the walkthrough describes, from its headings and snippets:
  \<^verbatim>\<open>mode: 'development'\<close>, the entry, the output, \<^verbatim>\<open>devtool: 'source-map'\<close>, a dev server
  with \<^verbatim>\<open>compress\<close> and \<^verbatim>\<open>historyApiFallback\<close>, the same three rules, and the two plugins.
\<close>

definition walkthrough :: "(string \<Rightarrow> string \<Rightarrow> string) \<Rightarrow> string \<Rightarrow> jsval" where
  "walkthrough resolve dirname = JObj
     [(''mode'', JStr ''development''),
      (''entry'', JObj [(''bundle'', JStr (resolve dirname ''src/index.js''))]),
      (''output'', JObj
         [(''path'', JStr (resolve dirname ''dist'')),
          (''filename'', JStr ''[name][contenthash].js''),
          (''clean'', JBool True),
          (''assetModuleFilename'', JStr ''[name][ext]'')]),
      (''devtool'', JStr ''source-map''),
      (''devServer'', JObj
         [(''static'', JObj [(''directory'', JStr (resolve dirname ''dist''))]),
          (''port'', JNum 3000),
          (''open'', JBool True),
          (''hot'', JBool True),
          (''compress'', JBool True),
          (''historyApiFallback'', JBool True)]),
      (''module'', JObj [(''rules'', JArr [style_rule, script_rule, asset_rule])]),
      (''plugins'', JArr
         [JNew ''HtmlWebpackPlugin''
            [JObj [(''title'', JStr ''Webpack App''),
                   (''filename'', JStr ''index.html''),
                   (''template'', JStr ''src/template.html'')]],
          JNew ''BundleAnalyzerPlugin'' []])]"

section \<open>Matching a run of characters\<close>

lemma match_at_chars:
  "match_at False (chars w) s = (if prefix w s then [drop (length w) s] else [])"
proof (induction w arbitrary: s)
  case Nil
  show ?case by simp
next
  case (Cons c cs)
  show ?case
  proof (cases s)
    case Nil
    then show ?thesis by simp
  next
    case (Cons x xs)
    then show ?thesis using Cons.IH [of xs] by (simp add: char_matches_def)
  qed
qed

lemma search_iff_suffix:
  "search ic r s \<longleftrightarrow> (\<exists>t. suffix t s \<and> match_at ic r t \<noteq> [])"
proof (induction s)
  case Nil
  show ?case by simp
next
  case (Cons x xs)
  show ?case by (auto simp: Cons.IH suffix_Cons)
qed

lemma match_at_chars_end:
  "match_at False (Cat (chars w) EndAnchor) s \<noteq> [] \<longleftrightarrow> s = w"
proof -
  have "prefix w s \<and> drop (length w) s = [] \<longleftrightarrow> s = w"
    by (auto simp: prefix_def)
  then show ?thesis by (auto simp: match_at_chars)
qed

lemma search_chars_end: "search False (Cat (chars w) EndAnchor) s \<longleftrightarrow> suffix w s"
  unfolding search_iff_suffix match_at_chars_end by simp

lemma search_chars: "search False (chars w) s \<longleftrightarrow> sublist w s"
proof -
  have "(\<exists>t. suffix t s \<and> prefix w t) \<longleftrightarrow> sublist w s"
    by (auto simp: sublist_def suffix_def prefix_def)
  moreover have "search False (chars w) s \<longleftrightarrow> (\<exists>t. suffix t s \<and> prefix w t)"
    by (auto simp: search_iff_suffix match_at_chars)
  ultimately show ?thesis by simp
qed

section \<open>The style rule\<close>

text \<open>
  C2. The test of the style rule, the first entry of \<^verbatim>\<open>module.rules\<close>, matches a path
  exactly when the path ends with \<^verbatim>\<open>.scss\<close>; the rule has no \<^verbatim>\<open>exclude\<close>, so it applies
  to exactly those paths and rejects every other path.
\<close>

theorem style_rule_accepts_scss_suffix:
  "elems (at_path [''module'', ''rules''] (config resolve dirname)) ! 0 = style_rule
   \<and> condition (field ''test'' style_rule) p = Some (suffix ''.scss'' p)
   \<and> field ''exclude'' style_rule = None
   \<and> rule_applies style_rule p = suffix ''.scss'' p"
  by (simp add: config_def style_rule_def condition_def rule_applies_def regexp_test_def
      search_chars_end del: chars.simps)

section \<open>The script rule\<close>

text \<open>
  C1. The script rule, the second entry of \<^verbatim>\<open>module.rules\<close>, applies to a path exactly
  when the path matches its test \<^verbatim>\<open>/\.js$/\<close>, that is ends with \<^verbatim>\<open>.js\<close>, and does not
  match its exclusion \<^verbatim>\<open>/node_modules/\<close>, that is does not contain \<^verbatim>\<open>node_modules\<close>.
\<close>

theorem script_rule_applies_iff:
  "elems (at_path [''module'', ''rules''] (config resolve dirname)) ! 1 = script_rule
   \<and> condition (field ''test'' script_rule) p = Some (suffix ''.js'' p)
   \<and> condition (field ''exclude'' script_rule) p = Some (sublist ''node_modules'' p)
   \<and> rule_applies script_rule p = (suffix ''.js'' p \<and> \<not> sublist ''node_modules'' p)"
  by (simp add: config_def script_rule_def condition_def rule_applies_def regexp_test_def
      search_chars_end search_chars del: chars.simps)

text \<open>
  C9. The exclusion of the script rule matches \<^verbatim>\<open>node_modules\<close> anywhere in the path, not
  only as the name of a top-level directory: a path that contains it at any position is
  excluded from the script transform, whatever its suffix.
\<close>

theorem script_rule_excludes_node_modules_anywhere:
  assumes "sublist ''node_modules'' p"
  shows "condition (field ''exclude'' script_rule) p = Some True
         \<and> \<not> rule_applies script_rule p"
  using assms
  by (simp add: script_rule_def condition_def rule_applies_def regexp_test_def
      search_chars del: chars.simps)

theorem script_rule_excludes_node_modules_anywhere_witness:
  "sublist ''node_modules'' ''/app/src/old_node_modules_copy/util.js''
   \<and> suffix ''.js'' ''/app/src/old_node_modules_copy/util.js''
   \<and> condition (field ''exclude'' script_rule) ''/app/src/old_node_modules_copy/util.js''
       = Some True
   \<and> \<not> rule_applies script_rule ''/app/src/old_node_modules_copy/util.js''"
proof -
  have h: "sublist ''node_modules'' ''/app/src/old_node_modules_copy/util.js''"
    by (simp add: sublist_code(3))
  have "suffix ''.js'' ''/app/src/old_node_modules_copy/util.js''"
    by (simp add: suffix_to_prefix)
  with h script_rule_excludes_node_modules_anywhere [OF h] show ?thesis by simp
qed

section \<open>Matching without regard to case\<close>

lemma case_fold_codes:
  fixes m n :: nat
  shows "((if 97 \<le> m \<and> m \<le> 122 then m - 32 else m) = (if 97 \<le> n \<and> n \<le> 122 then n - 32 else n))
     \<longleftrightarrow> ((if 65 \<le> m \<and> m \<le> 90 then m + 32 else m) = (if 65 \<le> n \<and> n \<le> 90 then n + 32 else n))"
  by (simp split: if_splits) arith

lemma of_char_canonicalize:
  "(of_char (canonicalize c) :: nat) =
     (if 97 \<le> (of_char c :: nat) \<and> (of_char c :: nat) \<le> 122 then of_char c - 32 else of_char c)"
proof -
  have "(of_char c :: nat) - 32 < 256"
    using nat_of_char_less_256 [of c] by arith
  then have "((of_char c :: nat) - 32) mod 256 = of_char c - 32"
    by (rule mod_less)
  then show ?thesis by (simp add: canonicalize_def Let_def)
qed

lemma of_char_lower_ascii:
  "(of_char (lower_ascii c) :: nat) =
     (if 65 \<le> (of_char c :: nat) \<and> (of_char c :: nat) \<le> 90 then of_char c + 32 else of_char c)"
  by (simp add: lower_ascii_def Let_def)

lemma canonicalize_eq_iff:
  "canonicalize a = canonicalize b \<longleftrightarrow> lower_ascii a = lower_ascii b"
proof -
  have "canonicalize a = canonicalize b \<longleftrightarrow>
        (of_char (canonicalize a) :: nat) = of_char (canonicalize b)"
    by simp
  also have "\<dots> \<longleftrightarrow> (of_char (lower_ascii a) :: nat) = of_char (lower_ascii b)"
    unfolding of_char_canonicalize of_char_lower_ascii by (rule case_fold_codes)
  also have "\<dots> \<longleftrightarrow> lower_ascii a = lower_ascii b"
    by simp
  finally show ?thesis .
qed

lemma map_canonicalize_eq_iff:
  "map canonicalize xs = map canonicalize ys \<longleftrightarrow> map lower_ascii xs = map lower_ascii ys"
proof (induction xs arbitrary: ys)
  case Nil
  show ?case by simp
next
  case (Cons x xs)
  show ?case by (cases ys) (simp_all add: Cons.IH canonicalize_eq_iff)
qed

lemma match_at_chars_ic:
  "match_at True (chars w) s =
     (if prefix (map canonicalize w) (map canonicalize s) then [drop (length w) s] else [])"
proof (induction w arbitrary: s)
  case Nil
  show ?case by simp
next
  case (Cons c cs)
  show ?case
  proof (cases s)
    case Nil
    then show ?thesis by simp
  next
    case (Cons x xs)
    then show ?thesis using Cons.IH [of xs] by (simp add: char_matches_def)
  qed
qed

lemma match_at_chars_end_ic:
  "match_at True (Cat (chars w) EndAnchor) s \<noteq> [] \<longleftrightarrow> map lower_ascii s = map lower_ascii w"
proof -
  have "prefix (map canonicalize w) (map canonicalize s) \<and> drop (length w) s = []
        \<longleftrightarrow> map canonicalize s = map canonicalize w"
  proof
    assume h: "prefix (map canonicalize w) (map canonicalize s) \<and> drop (length w) s = []"
    then obtain zs where zs: "map canonicalize s = map canonicalize w @ zs"
      by (auto simp: prefix_def)
    then have "length s = length w + length zs"
      by (metis length_append length_map)
    with h have "zs = []" by simp
    with zs show "map canonicalize s = map canonicalize w" by simp
  next
    assume h: "map canonicalize s = map canonicalize w"
    then have "length s = length w" by (metis length_map)
    with h show "prefix (map canonicalize w) (map canonicalize s) \<and> drop (length w) s = []"
      by simp
  qed
  then show ?thesis by (auto simp: match_at_chars_ic map_canonicalize_eq_iff)
qed

text \<open>The alternatives of a group, and a pattern character before a run.\<close>

lemma match_at_Cat_Alt:
  "match_at ic (Cat r1 (Cat (Alt a b) r2)) s \<noteq> [] \<longleftrightarrow>
     match_at ic (Cat r1 (Cat a r2)) s \<noteq> [] \<or> match_at ic (Cat r1 (Cat b r2)) s \<noteq> []"
  by auto

lemma match_at_Chr_chars:
  "match_at ic (Cat (Chr c) (Cat (chars w) r)) s = match_at ic (Cat (chars (c # w)) r) s"
  by (cases s) simp_all

lemma suffix_map_iff:
  "(\<exists>t. suffix t s \<and> map f t = w) \<longleftrightarrow> suffix w (map f s)"
  by (auto simp: suffix_def map_eq_append_conv)

lemma search_asset_pattern:
  "search True (Cat (Chr CHR ''.'')
            (Cat (Alt (chars ''png'') (Alt (chars ''svg'') (Alt (chars ''jpg'')
                    (Alt (chars ''jpeg'') (chars ''gif'')))))
               EndAnchor)) p
   \<longleftrightarrow> suffix ''.png'' (map lower_ascii p) \<or> suffix ''.svg'' (map lower_ascii p)
     \<or> suffix ''.jpg'' (map lower_ascii p) \<or> suffix ''.jpeg'' (map lower_ascii p)
     \<or> suffix ''.gif'' (map lower_ascii p)"
proof -
  have low: "map lower_ascii ''.png'' = ''.png''" "map lower_ascii ''.svg'' = ''.svg''"
    "map lower_ascii ''.jpg'' = ''.jpg''" "map lower_ascii ''.jpeg'' = ''.jpeg''"
    "map lower_ascii ''.gif'' = ''.gif''"
    by (simp_all add: lower_ascii_def)
  show ?thesis
    unfolding search_iff_suffix match_at_Cat_Alt match_at_Chr_chars match_at_chars_end_ic
      ex_disj_distrib conj_disj_distribL suffix_map_iff low
    by (rule refl)
qed

section \<open>The asset rule\<close>

text \<open>
  C3. The test of the asset rule, the third entry of \<^verbatim>\<open>module.rules\<close>, matches a path
  exactly when the path, brought to lower case, ends with one of \<^verbatim>\<open>.png\<close>, \<^verbatim>\<open>.svg\<close>,
  \<^verbatim>\<open>.jpg\<close>, \<^verbatim>\<open>.jpeg\<close>, \<^verbatim>\<open>.gif\<close>; the rule has no \<^verbatim>\<open>exclude\<close>, so it applies to exactly
  those paths and to no path with another suffix.
\<close>

theorem asset_rule_accepts_image_suffixes:
  "elems (at_path [''module'', ''rules''] (config resolve dirname)) ! 2 = asset_rule
   \<and> condition (field ''test'' asset_rule) p =
       Some (suffix ''.png'' (map lower_ascii p) \<or> suffix ''.svg'' (map lower_ascii p)
             \<or> suffix ''.jpg'' (map lower_ascii p) \<or> suffix ''.jpeg'' (map lower_ascii p)
             \<or> suffix ''.gif'' (map lower_ascii p))
   \<and> field ''exclude'' asset_rule = None
   \<and> rule_applies asset_rule p =
       (suffix ''.png'' (map lower_ascii p) \<or> suffix ''.svg'' (map lower_ascii p)
        \<or> suffix ''.jpg'' (map lower_ascii p) \<or> suffix ''.jpeg'' (map lower_ascii p)
        \<or> suffix ''.gif'' (map lower_ascii p))"
  by (simp add: config_def asset_rule_def condition_def rule_applies_def regexp_test_def
      search_asset_pattern del: chars.simps)

section \<open>Output names\<close>

text \<open>
  C4. The template \<^verbatim>\<open>output.filename\<close> is \<^verbatim>\<open>[name][contenthash].js\<close>: its tokens are the
  target-name token and the content-hash token. The configuration has the single entry
  \<^verbatim>\<open>bundle\<close>, and the script emitted for it is named by the entry's name followed by the
  hash of the content and \<^verbatim>\<open>.js\<close>, whatever the hash is.
\<close>

theorem output_filename_has_name_and_hash:
  "at_path [''output'', ''filename''] (config resolve dirname)
     = Some (JStr ''[name][contenthash].js'')
   \<and> tokens (parse None ''[name][contenthash].js'') = [''name'', ''contenthash'']
   \<and> keys (field ''entry'' (config resolve dirname)) = [''bundle'']
   \<and> script_filename (config resolve dirname) ''bundle'' h = Some (''bundle'' @ h @ ''.js'')"
  by (simp add: config_def script_filename_def chunk_env_def is_word_char_def)

text \<open>
  C10. The template \<^verbatim>\<open>output.assetModuleFilename\<close> is \<^verbatim>\<open>[name][ext]\<close>: its tokens are the
  original-name token and the extension token, and no content-hash token. A passthrough
  asset is emitted under its base name followed by its extension, so two assets with the
  same base name and extension get the same output name, whatever their source
  directories and contents are.
\<close>

theorem asset_filename_keeps_name_and_ext:
  "at_path [''output'', ''assetModuleFilename''] (config resolve dirname)
     = Some (JStr ''[name][ext]'')
   \<and> tokens (parse None ''[name][ext]'') = [''name'', ''ext'']
   \<and> ''contenthash'' \<notin> set (tokens (parse None ''[name][ext]''))
   \<and> asset_filename (config resolve dirname)
        \<lparr>file_path = d, file_name = n, file_ext = e, file_hash = h\<rparr> = Some (n @ e)
   \<and> asset_filename (config resolve dirname)
        \<lparr>file_path = d, file_name = n, file_ext = e, file_hash = h\<rparr>
       = asset_filename (config resolve dirname)
           \<lparr>file_path = d', file_name = n, file_ext = e, file_hash = h'\<rparr>"
  by (simp add: config_def asset_filename_def asset_env_def is_word_char_def)

section \<open>The transform chain of the style rule\<close>

text \<open>
  C5. The \<^verbatim>\<open>use\<close> array of the style rule has exactly three loaders, written as inject
  (\<^verbatim>\<open>style-loader\<close>), resolve (\<^verbatim>\<open>css-loader\<close>), preprocess (\<^verbatim>\<open>sass-loader\<close>); applied from
  right to left they run as preprocess, then resolve, then inject.
\<close>

theorem style_rule_use_order:
  "field ''use'' style_rule =
     Some (JArr [JStr ''style-loader'', JStr ''css-loader'', JStr ''sass-loader''])
   \<and> length (elems (field ''use'' style_rule)) = 3
   \<and> map loader_role (elems (field ''use'' style_rule))
       = [Some Inject, Some Resolve, Some Preprocess]
   \<and> map loader_role (application_order (elems (field ''use'' style_rule)))
       = [Some Preprocess, Some Resolve, Some Inject]"
  by (simp add: style_rule_def application_order_def)

section \<open>The server descriptor and the options of the walkthrough\<close>

text \<open>
  C6. The dev server serves the directory that \<^verbatim>\<open>output.path\<close> names, the resolution of
  \<^verbatim>\<open>dist\<close> against the directory of the configuration file, on port 3000, with \<^verbatim>\<open>open\<close>
  and \<^verbatim>\<open>hot\<close> both true.
\<close>

theorem dev_server_descriptor:
  "at_path [''devServer'', ''static'', ''directory''] (config resolve dirname)
     = at_path [''output'', ''path''] (config resolve dirname)
   \<and> at_path [''output'', ''path''] (config resolve dirname)
       = Some (JStr (resolve dirname ''dist''))
   \<and> at_path [''devServer'', ''port''] (config resolve dirname) = Some (JNum 3000)
   \<and> at_path [''devServer'', ''open''] (config resolve dirname) = Some (JBool True)
   \<and> at_path [''devServer'', ''hot''] (config resolve dirname) = Some (JBool True)"
  by (simp add: config_def)

text \<open>
  C7. None of \<^verbatim>\<open>devtool\<close>, \<^verbatim>\<open>compress\<close>, \<^verbatim>\<open>historyApiFallback\<close> is a property of the
  exported object or of its \<^verbatim>\<open>devServer\<close> object, whose properties are listed in full;
  the walkthrough describes all three.
\<close>

theorem walkthrough_options_absent:
  "keys (Some (config resolve dirname))
     = [''mode'', ''entry'', ''output'', ''devServer'', ''module'', ''plugins'']
   \<and> keys (field ''devServer'' (config resolve dirname))
       = [''static'', ''port'', ''open'', ''hot'']
   \<and> ''devtool'' \<notin> set (keys (Some (config resolve dirname)))
   \<and> ''compress'' \<notin> set (keys (Some (config resolve dirname)))
   \<and> ''historyApiFallback'' \<notin> set (keys (Some (config resolve dirname)))
   \<and> ''devtool'' \<notin> set (keys (field ''devServer'' (config resolve dirname)))
   \<and> ''compress'' \<notin> set (keys (field ''devServer'' (config resolve dirname)))
   \<and> ''historyApiFallback'' \<notin> set (keys (field ''devServer'' (config resolve dirname)))
   \<and> field ''devtool'' (walkthrough resolve dirname) = Some (JStr ''source-map'')
   \<and> at_path [''devServer'', ''compress''] (walkthrough resolve dirname) = Some (JBool True)
   \<and> at_path [''devServer'', ''historyApiFallback''] (walkthrough resolve dirname)
       = Some (JBool True)"
  by (simp add: config_def walkthrough_def)

text \<open>
  C8. The exported object declares \<^verbatim>\<open>mode\<close> as \<^verbatim>\<open>production\<close>, not \<^verbatim>\<open>development\<close>, while
  the walkthrough describes the mode as \<^verbatim>\<open>development\<close>.
\<close>

theorem mode_is_production:
  "field ''mode'' (config resolve dirname) = Some (JStr ''production'')
   \<and> field ''mode'' (config resolve dirname) \<noteq> Some (JStr ''development'')
   \<and> field ''mode'' (walkthrough resolve dirname) = Some (JStr ''development'')"
  by (simp add: config_def walkthrough_def)

section \<open>The matcher and the templates on sample inputs\<close>

text \<open>The definitions run; these values are computed by them, not by the theorems above.\<close>

lemma sample_paths:
  "rule_applies style_rule ''src/styles/main.scss''"
  "\<not> rule_applies style_rule ''src/styles/main.scss.bak''"
  "\<not> rule_applies style_rule ''src/styles/main.SCSS''"
  "rule_applies script_rule ''src/index.js''"
  "\<not> rule_applies script_rule ''src/index.jsx''"
  "\<not> rule_applies script_rule ''node_modules/lodash/lodash.js''"
  "rule_applies asset_rule ''src/assets/Logo.PNG''"
  "rule_applies asset_rule ''src/assets/photo.JpEg''"
  "\<not> rule_applies asset_rule ''src/assets/anim.webp''"
  "\<not> rule_applies asset_rule ''src/assets/logo.png.txt''"
  by code_simp+

lemma sample_names:
  "script_filename (config resolve dirname) ''bundle'' ''3f9a1c'' = Some ''bundle3f9a1c.js''"
  "asset_filename (config resolve dirname)
     \<lparr>file_path = ''src/assets/'', file_name = ''logo'', file_ext = ''.png'',
      file_hash = ''77aa''\<rparr>
   = Some ''logo.png''"
  by (simp_all add: config_def script_filename_def asset_filename_def chunk_env_def
      asset_env_def is_word_char_def)

end
